theory Spec2Isabelle
  imports Complex_Main
begin

section \<open>The network health monitor (scripts/network-health-monitor.py)\<close>

text \<open>
  A shallow embedding of the health-check engine: the probe strategies
  (\<open>check_http\<close>, \<open>check_tcp\<close>, \<open>check_ping\<close>, \<open>check_ldap\<close>,
  \<open>check_smtp\<close>), the dispatcher (\<open>check_endpoint\<close>, \<open>run_checks\<close>), the two
  report generators and the exit code of \<open>main\<close>.

  Python dictionaries with a fixed set of keys are records; a key that may be absent is
  an \<open>option\<close> field, and \<open>d['k']\<close> on an absent key is the error \<open>KeyError k\<close>.
  Every function that can raise returns \<open>py_error + 'a\<close>. The network, the clock and
  the built-in \<open>float\<close> are a parameter of the model (the record \<open>world\<close>): what a
  request, a connect or a ping subprocess answers is not decided by this code. Logging
  has no effect on any value and is left out.
\<close>

subsection \<open>Python values\<close>

datatype py_error = KeyError string | ZeroDivisionError

text \<open>\<open>d['k']\<close> followed by the rest of the computation, and \<open>d.get('k', default)\<close>.\<close>

definition getitem :: "'a option \<Rightarrow> string \<Rightarrow> ('a \<Rightarrow> py_error + 'b) \<Rightarrow> py_error + 'b" where
  "getitem field key k = (case field of None \<Rightarrow> Inl (KeyError key) | Some v \<Rightarrow> k v)"

definition dict_get :: "'a option \<Rightarrow> 'a \<Rightarrow> 'a" where
  "dict_get field dflt = (case field of None \<Rightarrow> dflt | Some v \<Rightarrow> v)"

text \<open>
  A Python float: a real number, or one of the three values that are not numbers.
  Every comparison with \<open>nan\<close> is false. Negative zero is not told apart from zero.
\<close>

datatype pyfloat = Finite real | PosInf | NegInf | NaN

fun float_gt :: "pyfloat \<Rightarrow> real \<Rightarrow> bool" where
  "float_gt (Finite x) c = (c < x)"
| "float_gt PosInf c = True"
| "float_gt NegInf c = False"
| "float_gt NaN c = False"

text \<open>
  \<open>round(x, 2)\<close> and the format \<open>.2f\<close> round the exact value to two decimals, ties to
  the even neighbour. The model rounds the real number; that the rounded value is stored
  again as the nearest binary float is not modelled.
\<close>

definition round_half_even :: "real \<Rightarrow> int" where
  "round_half_even y =
     (let f = \<lfloor>y\<rfloor>; d = y - of_int f
      in if d < 1 / 2 then f else if 1 / 2 < d then f + 1 else if even f then f else f + 1)"

definition round2 :: "real \<Rightarrow> real" where
  "round2 x = of_int (round_half_even (x * 100)) / 100"

fun round2f :: "pyfloat \<Rightarrow> pyfloat" where
  "round2f (Finite x) = Finite (round2 x)"
| "round2f PosInf = PosInf"
| "round2f NegInf = NegInf"
| "round2f NaN = NaN"

definition digit :: "nat \<Rightarrow> char" where
  "digit n = ''0123456789'' ! (n mod 10)"

fun str_nat :: "nat \<Rightarrow> string" where
  "str_nat n = (if n < 10 then [digit n] else str_nat (n div 10) @ [digit n])"

declare str_nat.simps [simp del]

definition str_int :: "int \<Rightarrow> string" where
  "str_int i = (if i < 0 then ''-'' @ str_nat (nat (- i)) else str_nat (nat i))"

definition fmt_2f :: "pyfloat \<Rightarrow> string" where
  "fmt_2f v =
     (case v of
        Finite x \<Rightarrow>
          (let n = nat (round_half_even (\<bar>x\<bar> * 100))
           in (if x < 0 then ''-'' else []) @ str_nat (n div 100) @ ''.''
              @ [digit (n div 10), digit n])
      | PosInf \<Rightarrow> ''inf''
      | NegInf \<Rightarrow> ''-inf''
      | NaN \<Rightarrow> ''nan'')"

text \<open>\<open>sub in s\<close> and \<open>s.split(sep)\<close> for a separator of one character.\<close>

fun startswith :: "string \<Rightarrow> string \<Rightarrow> bool" where
  "startswith s [] = True"
| "startswith [] (p # ps) = False"
| "startswith (c # cs) (p # ps) = (c = p \<and> startswith cs ps)"

fun contains :: "string \<Rightarrow> string \<Rightarrow> bool" where
  "contains [] sub = (sub = [])"
| "contains (c # cs) sub = (startswith (c # cs) sub \<or> contains cs sub)"

fun split :: "char \<Rightarrow> string \<Rightarrow> string list" where
  "split sep [] = [[]]"
| "split sep (c # cs) =
     (if c = sep then [] # split sep cs
      else (case split sep cs of [] \<Rightarrow> [[c]] | part # parts \<Rightarrow> (c # part) # parts))"

subsection \<open>Configuration\<close>

text \<open>
  An endpoint descriptor is a dictionary read from JSON. The code reads \<open>name\<close>,
  \<open>url\<close>, \<open>host\<close> and \<open>port\<close> with \<open>endpoint[...]\<close> and \<open>type\<close>, \<open>critical\<close>,
  \<open>timeout\<close> and (in the LDAP and SMTP wrappers) \<open>port\<close> with \<open>endpoint.get\<close>.
\<close>

record endpoint =
  ep_name :: "string option"
  ep_type :: "string option"
  ep_url :: "string option"
  ep_host :: "string option"
  ep_port :: "int option"
  ep_critical :: "bool option"
  ep_timeout :: "real option"

definition RESPONSE_TIME_WARN :: real where
  "RESPONSE_TIME_WARN = 1000"

definition RESPONSE_TIME_CRITICAL :: real where
  "RESPONSE_TIME_CRITICAL = 3000"

subsection \<open>The world a probe runs in\<close>

text \<open>
  \<open>requests.get(url, timeout=timeout, allow_redirects=True)\<close> either returns a response,
  of which the code reads the status code, or raises; the elapsed time in milliseconds is
  the difference of two clock readings around the call.
\<close>

datatype http_outcome =
    Response int real
  | Timeout
  | ConnectionError string
  | HttpException string

text \<open>
  Creating the socket, \<open>settimeout\<close>, \<open>connect_ex\<close> and \<open>close\<close>: the result code of
  \<open>connect_ex\<close> with the elapsed milliseconds, or an exception.
\<close>

datatype tcp_outcome =
    ConnectEx int real
  | Gaierror
  | TcpException string

text \<open>
  \<open>subprocess.run(['ping', '-c', '3', '-W', str(timeout), host], capture_output=True,
  text=True, timeout=timeout * 3)\<close>: the return code and the standard output, or an
  exception.
\<close>

datatype ping_outcome =
    CompletedProcess int string
  | TimeoutExpired
  | PingException string

text \<open>
  The strings carried by the exceptions are \<open>str(e)\<close>. \<open>float_of\<close> is the built-in
  \<open>float\<close> on a string (\<open>None\<close>: it raises \<open>ValueError\<close>); \<open>now\<close> is
  \<open>datetime.now().isoformat()\<close>.
\<close>

record world =
  requests_get :: "string \<Rightarrow> real \<Rightarrow> http_outcome"
  connect_ex :: "string \<Rightarrow> int \<Rightarrow> real \<Rightarrow> tcp_outcome"
  subprocess_run :: "string \<Rightarrow> real \<Rightarrow> ping_outcome"
  float_of :: "string \<Rightarrow> pyfloat option"
  now :: string

subsection \<open>Probe results\<close>

datatype health_state = Healthy | Warning | Critical | Unknown

text \<open>
  The dictionary a strategy returns. \<open>response_time_ms\<close> and \<open>http_code\<close> are absent
  from some of them. \<open>run_checks\<close> adds the key \<open>critical\<close>.
\<close>

record probe =
  name :: string
  rtype :: string
  status :: health_state
  available :: bool
  response_time_ms :: "pyfloat option"
  http_code :: "int option"
  details :: string
  timestamp :: string

record result = probe +
  critical :: bool

subsection \<open>The probe strategies (class HealthChecker)\<close>

text \<open>
  \<open>check_http\<close>. The URL is read before the \<open>try\<close>; the name is read where each
  result dictionary is built, also inside the handlers, so a missing name leaves the
  function as a \<open>KeyError\<close> on every path. The response time of the timeout branch
  is the product \<open>timeout * 1000\<close> of the real numbers; for a timeout that is not an
  integer Python stores the product rounded to the nearest float, which is not modelled.
\<close>

definition check_http :: "world \<Rightarrow> endpoint \<Rightarrow> py_error + probe" where
  "check_http w endpoint =
     getitem (ep_url endpoint) ''url'' (\<lambda>url.
       let timeout = dict_get (ep_timeout endpoint) 5 in
       case requests_get w url timeout of
         Response status_code elapsed_ms \<Rightarrow>
           let st = (if 500 \<le> status_code then Critical
                     else if 400 \<le> status_code then Warning
                     else if RESPONSE_TIME_CRITICAL < elapsed_ms then Critical
                     else if RESPONSE_TIME_WARN < elapsed_ms then Warning
                     else Healthy)
           in getitem (ep_name endpoint) ''name'' (\<lambda>nm. Inr
                \<lparr>name = nm, rtype = ''http'', status = st, available = True,
                 response_time_ms = Some (Finite (round2 elapsed_ms)),
                 http_code = Some status_code,
                 details = ''HTTP '' @ str_int status_code, timestamp = now w\<rparr>)
       | Timeout \<Rightarrow>
           getitem (ep_name endpoint) ''name'' (\<lambda>nm. Inr
             \<lparr>name = nm, rtype = ''http'', status = Critical, available = False,
              response_time_ms = Some (Finite (timeout * 1000)), http_code = None,
              details = ''Connection timeout'', timestamp = now w\<rparr>)
       | ConnectionError e \<Rightarrow>
           getitem (ep_name endpoint) ''name'' (\<lambda>nm. Inr
             \<lparr>name = nm, rtype = ''http'', status = Critical, available = False,
              response_time_ms = None, http_code = None,
              details = ''Connection refused: '' @ take 50 e, timestamp = now w\<rparr>)
       | HttpException e \<Rightarrow>
           getitem (ep_name endpoint) ''name'' (\<lambda>nm. Inr
             \<lparr>name = nm, rtype = ''http'', status = Critical, available = False,
              response_time_ms = None, http_code = None,
              details = ''Error: '' @ take 50 e, timestamp = now w\<rparr>))"

text \<open>\<open>check_tcp\<close>: host and port are read before the \<open>try\<close>.\<close>

definition check_tcp :: "world \<Rightarrow> endpoint \<Rightarrow> py_error + probe" where
  "check_tcp w endpoint =
     getitem (ep_host endpoint) ''host'' (\<lambda>host.
     getitem (ep_port endpoint) ''port'' (\<lambda>port.
       let timeout = dict_get (ep_timeout endpoint) 3 in
       case connect_ex w host port timeout of
         ConnectEx res elapsed_ms \<Rightarrow>
           if res = 0 then
             let st = (if RESPONSE_TIME_CRITICAL < elapsed_ms then Critical
                       else if RESPONSE_TIME_WARN < elapsed_ms then Warning
                       else Healthy)
             in getitem (ep_name endpoint) ''name'' (\<lambda>nm. Inr
                  \<lparr>name = nm, rtype = ''tcp'', status = st, available = True,
                   response_time_ms = Some (Finite (round2 elapsed_ms)), http_code = None,
                   details = ''Port '' @ str_int port @ '' open'', timestamp = now w\<rparr>)
           else
             getitem (ep_name endpoint) ''name'' (\<lambda>nm. Inr
               \<lparr>name = nm, rtype = ''tcp'', status = Critical, available = False,
                response_time_ms = None, http_code = None,
                details = ''Port '' @ str_int port @ '' closed or filtered'',
                timestamp = now w\<rparr>)
       | Gaierror \<Rightarrow>
           getitem (ep_name endpoint) ''name'' (\<lambda>nm. Inr
             \<lparr>name = nm, rtype = ''tcp'', status = Critical, available = False,
              response_time_ms = None, http_code = None,
              details = ''DNS resolution failed'', timestamp = now w\<rparr>)
       | TcpException e \<Rightarrow>
           getitem (ep_name endpoint) ''name'' (\<lambda>nm. Inr
             \<lparr>name = nm, rtype = ''tcp'', status = Critical, available = False,
              response_time_ms = None, http_code = None,
              details = ''Error: '' @ take 50 e, timestamp = now w\<rparr>)))"

text \<open>
  The average round-trip time read from the output of ping (lines 305 to 313 of
  \<open>check_ping\<close>): the fifth \<open>/\<close>-separated part of the first line that contains
  \<open>avg\<close>. The bare \<open>except\<close> turns an index out of range and a \<open>ValueError\<close> of
  \<open>float\<close> into \<open>0\<close>.
\<close>

definition ping_avg_ms :: "world \<Rightarrow> string \<Rightarrow> pyfloat" where
  "ping_avg_ms w output =
     (if contains output ''avg'' then
        (case filter (\<lambda>l. contains l ''avg'') (split (CHR 0x0A) output) of
           [] \<Rightarrow> Finite 0
         | avg_line # _ \<Rightarrow>
             (let parts = split (CHR ''/'') avg_line
              in if 4 < length parts
                 then (case float_of w (parts ! 4) of None \<Rightarrow> Finite 0 | Some v \<Rightarrow> v)
                 else Finite 0))
      else Finite 0)"

definition check_ping :: "world \<Rightarrow> endpoint \<Rightarrow> py_error + probe" where
  "check_ping w endpoint =
     getitem (ep_host endpoint) ''host'' (\<lambda>host.
       let timeout = dict_get (ep_timeout endpoint) 2 in
       case subprocess_run w host timeout of
         CompletedProcess returncode output \<Rightarrow>
           if returncode = 0 then
             let avg_ms = ping_avg_ms w output;
                 st = (if float_gt avg_ms RESPONSE_TIME_CRITICAL then Critical
                       else if float_gt avg_ms RESPONSE_TIME_WARN then Warning
                       else Healthy)
             in getitem (ep_name endpoint) ''name'' (\<lambda>nm. Inr
                  \<lparr>name = nm, rtype = ''ping'', status = st, available = True,
                   response_time_ms = Some (round2f avg_ms), http_code = None,
                   details = ''Avg RTT: '' @ fmt_2f avg_ms @ ''ms'', timestamp = now w\<rparr>)
           else
             getitem (ep_name endpoint) ''name'' (\<lambda>nm. Inr
               \<lparr>name = nm, rtype = ''ping'', status = Critical, available = False,
                response_time_ms = None, http_code = None,
                details = ''Host unreachable'', timestamp = now w\<rparr>)
       | TimeoutExpired \<Rightarrow>
           getitem (ep_name endpoint) ''name'' (\<lambda>nm. Inr
             \<lparr>name = nm, rtype = ''ping'', status = Critical, available = False,
              response_time_ms = None, http_code = None,
              details = ''Ping timeout'', timestamp = now w\<rparr>)
       | PingException e \<Rightarrow>
           getitem (ep_name endpoint) ''name'' (\<lambda>nm. Inr
             \<lparr>name = nm, rtype = ''ping'', status = Critical, available = False,
              response_time_ms = None, http_code = None,
              details = ''Error: '' @ take 50 e, timestamp = now w\<rparr>))"

text \<open>
  \<open>check_ldap\<close> and \<open>check_smtp\<close> build a descriptor for \<open>check_tcp\<close> and overwrite
  the type of its result.
\<close>

definition check_ldap :: "world \<Rightarrow> endpoint \<Rightarrow> py_error + probe" where
  "check_ldap w endpoint =
     getitem (ep_name endpoint) ''name'' (\<lambda>nm.
     getitem (ep_host endpoint) ''host'' (\<lambda>host.
       let endpoint_tcp =
             \<lparr>ep_name = Some nm, ep_type = None, ep_url = None, ep_host = Some host,
              ep_port = Some (dict_get (ep_port endpoint) 389), ep_critical = None,
              ep_timeout = Some (dict_get (ep_timeout endpoint) 3)\<rparr>
       in case check_tcp w endpoint_tcp of
            Inl e \<Rightarrow> Inl e
          | Inr res \<Rightarrow> Inr (res\<lparr>rtype := ''ldap''\<rparr>)))"

definition check_smtp :: "world \<Rightarrow> endpoint \<Rightarrow> py_error + probe" where
  "check_smtp w endpoint =
     getitem (ep_name endpoint) ''name'' (\<lambda>nm.
     getitem (ep_host endpoint) ''host'' (\<lambda>host.
       let endpoint_tcp =
             \<lparr>ep_name = Some nm, ep_type = None, ep_url = None, ep_host = Some host,
              ep_port = Some (dict_get (ep_port endpoint) 25), ep_critical = None,
              ep_timeout = Some (dict_get (ep_timeout endpoint) 5)\<rparr>
       in case check_tcp w endpoint_tcp of
            Inl e \<Rightarrow> Inl e
          | Inr res \<Rightarrow> Inr (res\<lparr>rtype := ''smtp''\<rparr>)))"

definition check_endpoint :: "world \<Rightarrow> endpoint \<Rightarrow> py_error + probe" where
  "check_endpoint w endpoint =
     (let check_type = dict_get (ep_type endpoint) ''tcp'' in
      if check_type = ''http'' \<or> check_type = ''https'' then check_http w endpoint
      else if check_type = ''tcp'' then check_tcp w endpoint
      else if check_type = ''ping'' then check_ping w endpoint
      else if check_type = ''ldap'' then check_ldap w endpoint
      else if check_type = ''smtp'' then check_smtp w endpoint
      else getitem (ep_name endpoint) ''name'' (\<lambda>nm. Inr
             \<lparr>name = nm, rtype = check_type, status = Unknown, available = False,
              response_time_ms = None, http_code = None,
              details = ''Unknown check type'', timestamp = now w\<rparr>))"

subsection \<open>The dispatcher\<close>

text \<open>The state of a \<open>HealthChecker\<close> object, and \<open>__init__\<close>.\<close>

record checker =
  results :: "result list"
  critical_failures :: int
  warnings :: int
  successes :: int

definition HealthChecker :: checker where
  "HealthChecker = \<lparr>results = [], critical_failures = 0, warnings = 0, successes = 0\<rparr>"

text \<open>\<open>result['critical'] = flag\<close> on the dictionary a strategy returned.\<close>

definition set_critical :: "probe \<Rightarrow> bool \<Rightarrow> result" where
  "set_critical p flag =
     \<lparr>name = name p, rtype = rtype p, status = status p, available = available p,
      response_time_ms = response_time_ms p, http_code = http_code p,
      details = details p, timestamp = timestamp p, critical = flag\<rparr>"

text \<open>
  The loop of \<open>run_checks\<close>. The \<open>k\<close>-th probe of the batch runs in the world \<open>W k\<close>.
  Nothing around \<open>check_endpoint\<close> catches: an error ends the loop and leaves
  the object as it was when the error was raised.
\<close>

fun run_checks_loop :: "(nat \<Rightarrow> world) \<Rightarrow> endpoint list \<Rightarrow> checker \<Rightarrow> py_error option \<times> checker" where
  "run_checks_loop W [] chk = (None, chk)"
| "run_checks_loop W (endpoint # rest) chk =
     (case check_endpoint (W 0) endpoint of
        Inl e \<Rightarrow> (Some e, chk)
      | Inr p \<Rightarrow>
          (let res = set_critical p (dict_get (ep_critical endpoint) False);
               chk1 = chk\<lparr>results := results chk @ [res]\<rparr>;
               chk2 = (if status res = Healthy then chk1\<lparr>successes := successes chk1 + 1\<rparr>
                       else if status res = Warning then chk1\<lparr>warnings := warnings chk1 + 1\<rparr>
                       else if critical res
                            then chk1\<lparr>critical_failures := critical_failures chk1 + 1\<rparr>
                       else chk1)
           in run_checks_loop (\<lambda>k. W (Suc k)) rest chk2))"

text \<open>
  \<open>run_checks\<close> empties \<open>self.results\<close>, leaves the three counters as they are, runs
  the loop and returns \<open>self.results\<close>. The second component is the object afterwards.
\<close>

definition run_checks :: "(nat \<Rightarrow> world) \<Rightarrow> endpoint list \<Rightarrow> checker \<Rightarrow> (py_error + result list) \<times> checker" where
  "run_checks W endpoints chk =
     (case run_checks_loop W endpoints (chk\<lparr>results := []\<rparr>) of
        (Some e, chk') \<Rightarrow> (Inl e, chk')
      | (None, chk') \<Rightarrow> (Inr (results chk'), chk'))"

subsection \<open>Report generation\<close>

text \<open>\<open>sum(1 for r in results if cond(r))\<close>.\<close>

definition count_if :: "('a \<Rightarrow> bool) \<Rightarrow> 'a list \<Rightarrow> int" where
  "count_if cond xs = sum_list (map (\<lambda>r. 1) (filter cond xs))"

text \<open>
  The dictionary \<open>generate_json_output\<close> writes to the output file, without the keys
  \<open>generated\<close> and \<open>metadata\<close>, which no decision reads. Every result that reaches
  the function has the keys \<open>critical\<close> and \<open>available\<close>.
\<close>

record summary =
  total_endpoints :: int
  sum_healthy :: int
  sum_warnings :: int
  sum_critical :: int
  sum_down :: int

record json_output =
  overall_status :: health_state
  summary :: summary
  endpoints :: "result list"

definition generate_json_output :: "result list \<Rightarrow> json_output" where
  "generate_json_output rs =
     (let critical_down = count_if (\<lambda>r. status r = Critical \<and> critical r) rs;
          warns = count_if (\<lambda>r. status r = Warning) rs;
          overall = (if 0 < critical_down then Critical
                     else if 0 < warns then Warning
                     else Healthy)
      in \<lparr>overall_status = overall,
          summary = \<lparr>total_endpoints = int (length rs),
                     sum_healthy = count_if (\<lambda>r. status r = Healthy) rs,
                     sum_warnings = warns,
                     sum_critical = critical_down,
                     sum_down = count_if (\<lambda>r. \<not> available r) rs\<rparr>,
          endpoints = rs\<rparr>)"

text \<open>
  What \<open>generate_console_report\<close> computes: the three groups it lists, the health score
  and the status line (without its leading mark). The division is Python's true
  division of two integers, which raises when the divisor is zero.
\<close>

record console_report =
  healthy_group :: "result list"
  warnings_group :: "result list"
  critical_group :: "result list"
  health_score :: real
  status_line :: string

definition generate_console_report :: "result list \<Rightarrow> py_error + console_report" where
  "generate_console_report rs =
     (let healthy = filter (\<lambda>r. status r = Healthy) rs;
          warns = filter (\<lambda>r. status r = Warning) rs;
          crit = filter (\<lambda>r. status r = Critical) rs
      in if length rs = 0 then Inl ZeroDivisionError
         else
           (let score = (real (length healthy) / real (length rs)) * 100
            in Inr \<lparr>healthy_group = healthy, warnings_group = warns, critical_group = crit,
                    health_score = score,
                    status_line = (if score = 100 then ''ALL SYSTEMS OPERATIONAL''
                                   else if 90 \<le> score then ''DEGRADED PERFORMANCE''
                                   else ''CRITICAL ISSUES DETECTED'')\<rparr>))"

subsection \<open>The exit code\<close>

text \<open>The last statement of \<open>main\<close>: the exit code is read from the counters.\<close>

definition exit_code :: "checker \<Rightarrow> int" where
  "exit_code chk =
     (if 0 < critical_failures chk then 2
      else if 0 < warnings chk then 1
      else 0)"

text \<open>
  \<open>main\<close> from the point where the endpoints are loaded: a fresh checker runs the
  checks, the JSON output is generated, the console report is printed unless
  \<open>--quick\<close> was given, and the exit code is returned. The value is the JSON output
  with the exit code, or the error that ends the process.
\<close>

definition main :: "(nat \<Rightarrow> world) \<Rightarrow> bool \<Rightarrow> endpoint list \<Rightarrow> py_error + json_output \<times> int" where
  "main W quick eps =
     (case run_checks W eps HealthChecker of
        (Inl e, chk) \<Rightarrow> Inl e
      | (Inr rs, chk) \<Rightarrow>
          (let output = generate_json_output rs
           in if \<not> quick
              then (case generate_console_report rs of
                      Inl e \<Rightarrow> Inl e
                    | Inr report \<Rightarrow> Inr (output, exit_code chk))
              else Inr (output, exit_code chk)))"

subsection \<open>The classifier of the specification\<close>

text \<open>
  The latency grading as the specification words it: above 3000 ms critical, above 1000
  and up to 3000 ms warning, up to 1000 ms healthy. The code has no such function; each
  strategy repeats the comparisons.
\<close>

definition grade :: "real \<Rightarrow> health_state" where
  "grade t = (if 3000 < t then Critical else if 1000 < t \<and> t \<le> 3000 then Warning else Healthy)"

text \<open>
  A descriptor carries the keys that the strategy of its type reads with
  \<open>endpoint[...]\<close>: the name always, the URL for http and https, host and port for tcp,
  the host for ping, ldap and smtp.
\<close>

definition has_required_fields :: "endpoint \<Rightarrow> bool" where
  "has_required_fields ep =
     (let check_type = dict_get (ep_type ep) ''tcp'' in
      ep_name ep \<noteq> None \<and>
      (if check_type = ''http'' \<or> check_type = ''https'' then ep_url ep \<noteq> None
       else if check_type = ''tcp'' then ep_host ep \<noteq> None \<and> ep_port ep \<noteq> None
       else if check_type = ''ping'' \<or> check_type = ''ldap'' \<or> check_type = ''smtp''
         then ep_host ep \<noteq> None
       else True))"

text \<open>
  The output of a successful ping has no average that can be read: it does not contain
  \<open>avg\<close>, or the first line that does has fewer than five parts, or \<open>float\<close> rejects
  the fifth.
\<close>

definition avg_unparsable :: "world \<Rightarrow> string \<Rightarrow> bool" where
  "avg_unparsable w output =
     (\<not> contains output ''avg'' \<or>
      (case filter (\<lambda>l. contains l ''avg'') (split (CHR 0x0A) output) of
         [] \<Rightarrow> True
       | avg_line # _ \<Rightarrow>
           length (split (CHR ''/'') avg_line) \<le> 4
           \<or> float_of w (split (CHR ''/'') avg_line ! 4) = None))"

subsection \<open>Values on which the theorems are instantiated\<close>

definition sample_world :: "http_outcome \<Rightarrow> tcp_outcome \<Rightarrow> ping_outcome \<Rightarrow> world" where
  "sample_world h t p =
     \<lparr>requests_get = (\<lambda>url timeout. h), connect_ex = (\<lambda>host port timeout. t),
      subprocess_run = (\<lambda>host timeout. p),
      float_of = (\<lambda>s. if s = ''3000.5'' then Some (Finite 3000.5) else None),
      now = ''2026-01-31T09:00:00''\<rparr>"

text \<open>A world in which every operation succeeds only with the default timeout.\<close>

definition timeout_world :: world where
  "timeout_world =
     \<lparr>requests_get = (\<lambda>url timeout. if timeout = 5 then Response 200 50 else Timeout),
      connect_ex = (\<lambda>host port timeout.
         if timeout = 3 then ConnectEx 0 20 else TcpException ''timeout out of range''),
      subprocess_run = (\<lambda>host timeout.
         if timeout = 2 then CompletedProcess 0 [] else TimeoutExpired),
      float_of = (\<lambda>s. None),
      now = ''2026-01-31T09:00:00''\<rparr>"

definition sample_endpoint :: "string \<Rightarrow> endpoint" where
  "sample_endpoint ty =
     \<lparr>ep_name = Some ''svc'', ep_type = Some ty, ep_url = Some ''https://svc'',
      ep_host = Some ''svc.local'', ep_port = Some 5432, ep_critical = Some True,
      ep_timeout = None\<rparr>"

definition sample_result :: "string \<Rightarrow> health_state \<Rightarrow> bool \<Rightarrow> result" where
  "sample_result nm st flag =
     \<lparr>name = nm, rtype = ''tcp'', status = st, available = (st \<noteq> Critical),
      response_time_ms = None, http_code = None, details = [], timestamp = [],
      critical = flag\<rparr>"

section \<open>Properties\<close>

subsection \<open>Counting\<close>

lemma count_if_length: "count_if cond xs = int (length (filter cond xs))"
  by (induction xs) (simp_all add: count_if_def)

lemma count_if_pos: "0 < count_if cond xs \<longleftrightarrow> (\<exists>x \<in> set xs. cond x)"
  by (simp add: count_if_length filter_empty_conv)

subsection \<open>The overall status\<close>

text \<open>
  Claim C1. The overall status written by \<open>generate_json_output\<close> is critical exactly
  when some result is critical and carries the critical flag; otherwise it is warning
  when some result is a warning; otherwise it is healthy. Critical results without the
  flag, however many, never make it critical.
\<close>

theorem overall_status_rule:
  "overall_status (generate_json_output rs) =
     (if \<exists>r \<in> set rs. status r = Critical \<and> critical r then Critical
      else if \<exists>r \<in> set rs. status r = Warning then Warning
      else Healthy)
   \<and> ((\<forall>r \<in> set rs. status r = Critical \<longrightarrow> \<not> critical r)
        \<longrightarrow> overall_status (generate_json_output rs) \<noteq> Critical)"
  by (auto simp: generate_json_output_def Let_def count_if_pos)

theorem overall_status_rule_witness:
  "overall_status (generate_json_output
     [sample_result ''a'' Critical False, sample_result ''b'' Critical False,
      sample_result ''c'' Healthy True]) = Healthy
   \<and> overall_status (generate_json_output
     [sample_result ''a'' Critical False, sample_result ''b'' Warning True]) = Warning
   \<and> overall_status (generate_json_output
     [sample_result ''a'' Critical False, sample_result ''b'' Critical True]) = Critical"
  using overall_status_rule [of "[sample_result ''a'' Critical False,
      sample_result ''b'' Critical False, sample_result ''c'' Healthy True]"]
    overall_status_rule [of "[sample_result ''a'' Critical False,
      sample_result ''b'' Warning True]"]
    overall_status_rule [of "[sample_result ''a'' Critical False,
      sample_result ''b'' Critical True]"]
  by (simp add: sample_result_def)

subsection \<open>The exit code\<close>

text \<open>
  Claim C2. The exit code is meant to follow the overall status (2 for critical, 1 for
  warning, 0 for healthy). It is computed from the counters of \<open>run_checks\<close>, whose last
  branch counts every flagged result that is neither healthy nor a warning, while
  \<open>generate_json_output\<close> counts only flagged results that are critical. For one
  flagged descriptor of an unknown type the process exits with 2 and the overall status
  it has written is healthy, in every world and with or without \<open>--quick\<close>.
\<close>

theorem exit_code_unknown_flagged:
  "\<exists>out. main W quick [sample_endpoint ''dns''] = Inr (out, 2) \<and> overall_status out = Healthy"
  by (simp add: main_def run_checks_def check_endpoint_def sample_endpoint_def dict_get_def
      getitem_def set_critical_def HealthChecker_def generate_json_output_def count_if_def
      generate_console_report_def exit_code_def Let_def)

subsection \<open>Latency grading\<close>

text \<open>
  Claim C3. A probe that succeeds (an HTTP response below 400, which covers 2xx and 3xx,
  a TCP connect with result 0, a ping with return code 0) with the latency \<open>t\<close> is
  available and has the state \<open>grade t\<close>: critical above 3000, warning above 1000 up to
  3000, healthy up to 1000. The three strategies agree, and the boundaries 1000 and 3000
  belong to the less severe state.
\<close>

theorem latency_grading:
  "(ep_url ep = Some url \<and> ep_name ep = Some nm
      \<and> requests_get w url (dict_get (ep_timeout ep) 5) = Response code t1 \<and> code < 400
      \<longrightarrow> (\<exists>r. check_http w ep = Inr r \<and> available r \<and> status r = grade t1))
   \<and> (ep_host ep = Some host \<and> ep_port ep = Some port \<and> ep_name ep = Some nm
      \<and> connect_ex w host port (dict_get (ep_timeout ep) 3) = ConnectEx 0 t2
      \<longrightarrow> (\<exists>r. check_tcp w ep = Inr r \<and> available r \<and> status r = grade t2))
   \<and> (ep_host ep = Some host \<and> ep_name ep = Some nm
      \<and> subprocess_run w host (dict_get (ep_timeout ep) 2) = CompletedProcess 0 out
      \<and> ping_avg_ms w out = Finite t3
      \<longrightarrow> (\<exists>r. check_ping w ep = Inr r \<and> available r \<and> status r = grade t3))
   \<and> grade 1000 = Healthy \<and> grade 3000 = Warning"
  by (simp add: check_http_def check_tcp_def check_ping_def getitem_def grade_def Let_def
      RESPONSE_TIME_WARN_def RESPONSE_TIME_CRITICAL_def)

theorem latency_grading_witness:
  "(\<exists>r. check_http
          (sample_world (Response 200 1000) (ConnectEx 0 3000)
             (CompletedProcess 0 ''rtt min/avg/max/mdev = 2999.1/3000.5/3001.2/0.9 ms''))
          (sample_endpoint ''http'') = Inr r \<and> available r \<and> status r = Healthy)
   \<and> (\<exists>r. check_tcp
          (sample_world (Response 200 1000) (ConnectEx 0 3000)
             (CompletedProcess 0 ''rtt min/avg/max/mdev = 2999.1/3000.5/3001.2/0.9 ms''))
          (sample_endpoint ''http'') = Inr r \<and> available r \<and> status r = Warning)
   \<and> (\<exists>r. check_ping
          (sample_world (Response 200 1000) (ConnectEx 0 3000)
             (CompletedProcess 0 ''rtt min/avg/max/mdev = 2999.1/3000.5/3001.2/0.9 ms''))
          (sample_endpoint ''http'') = Inr r \<and> available r \<and> status r = Critical)"
  using latency_grading [where ep = "sample_endpoint ''http''" and url = "''https://svc''"
      and nm = "''svc''" and host = "''svc.local''" and port = 5432 and code = 200
      and ?t1.0 = 1000 and ?t2.0 = 3000 and ?t3.0 = "3000.5"
      and out = "''rtt min/avg/max/mdev = 2999.1/3000.5/3001.2/0.9 ms''"
      and w = "sample_world (Response 200 1000) (ConnectEx 0 3000)
             (CompletedProcess 0 ''rtt min/avg/max/mdev = 2999.1/3000.5/3001.2/0.9 ms'')"]
  by (simp add: sample_endpoint_def sample_world_def dict_get_def ping_avg_ms_def grade_def)

subsection \<open>The console report\<close>



subsection \<open>The dispatcher\<close>

lemma check_http_total:
  "ep_url ep = Some u \<Longrightarrow> ep_name ep = Some nm \<Longrightarrow> \<exists>p. check_http w ep = Inr p"
  by (simp add: check_http_def getitem_def Let_def split: http_outcome.split)

lemma check_tcp_total:
  "ep_host ep = Some h \<Longrightarrow> ep_port ep = Some pt \<Longrightarrow> ep_name ep = Some nm
   \<Longrightarrow> \<exists>p. check_tcp w ep = Inr p"
  by (simp add: check_tcp_def getitem_def Let_def split: tcp_outcome.split)

lemma check_ping_total:
  "ep_host ep = Some h \<Longrightarrow> ep_name ep = Some nm \<Longrightarrow> \<exists>p. check_ping w ep = Inr p"
  by (simp add: check_ping_def getitem_def Let_def split: ping_outcome.split)

lemma check_ldap_total:
  "ep_host ep = Some h \<Longrightarrow> ep_name ep = Some nm \<Longrightarrow> \<exists>p. check_ldap w ep = Inr p"
proof -
  assume h: "ep_host ep = Some h" and n: "ep_name ep = Some nm"
  let ?e = "\<lparr>ep_name = Some nm, ep_type = None, ep_url = None, ep_host = Some h,
              ep_port = Some (dict_get (ep_port ep) 389), ep_critical = None,
              ep_timeout = Some (dict_get (ep_timeout ep) 3)\<rparr>"
  obtain p where "check_tcp w ?e = Inr p"
    using check_tcp_total [of ?e h "dict_get (ep_port ep) 389" nm w] by auto
  then show ?thesis using h n by (simp add: check_ldap_def getitem_def Let_def)
qed

lemma check_smtp_total:
  "ep_host ep = Some h \<Longrightarrow> ep_name ep = Some nm \<Longrightarrow> \<exists>p. check_smtp w ep = Inr p"
proof -
  assume h: "ep_host ep = Some h" and n: "ep_name ep = Some nm"
  let ?e = "\<lparr>ep_name = Some nm, ep_type = None, ep_url = None, ep_host = Some h,
              ep_port = Some (dict_get (ep_port ep) 25), ep_critical = None,
              ep_timeout = Some (dict_get (ep_timeout ep) 5)\<rparr>"
  obtain p where "check_tcp w ?e = Inr p"
    using check_tcp_total [of ?e h "dict_get (ep_port ep) 25" nm w] by auto
  then show ?thesis using h n by (simp add: check_smtp_def getitem_def Let_def)
qed

lemma check_endpoint_total:
  assumes "has_required_fields ep"
  shows "\<exists>p. check_endpoint w ep = Inr p"
proof -
  obtain nm where nm: "ep_name ep = Some nm"
    using assms by (auto simp: has_required_fields_def Let_def)
  let ?t = "dict_get (ep_type ep) ''tcp''"
  consider "?t = ''http'' \<or> ?t = ''https''" | "?t = ''tcp''" | "?t = ''ping''" | "?t = ''ldap''"
    | "?t = ''smtp''"
    | "\<not> (?t = ''http'' \<or> ?t = ''https'')" "?t \<noteq> ''tcp''" "?t \<noteq> ''ping''" "?t \<noteq> ''ldap''"
      "?t \<noteq> ''smtp''"
    by blast
  then show ?thesis
  proof cases
    case 1
    then obtain u where "ep_url ep = Some u"
      using assms by (auto simp: has_required_fields_def Let_def)
    then show ?thesis using 1 nm check_http_total [of ep u nm w]
      by (auto simp: check_endpoint_def Let_def)
  next
    case 2
    then obtain h pt where "ep_host ep = Some h" "ep_port ep = Some pt"
      using assms by (auto simp: has_required_fields_def Let_def)
    then show ?thesis using 2 nm check_tcp_total [of ep h pt nm w]
      by (auto simp: check_endpoint_def Let_def)
  next
    case 3
    then obtain h where "ep_host ep = Some h"
      using assms by (auto simp: has_required_fields_def Let_def)
    then show ?thesis using 3 nm check_ping_total [of ep h nm w]
      by (auto simp: check_endpoint_def Let_def)
  next
    case 4
    then obtain h where "ep_host ep = Some h"
      using assms by (auto simp: has_required_fields_def Let_def)
    then show ?thesis using 4 nm check_ldap_total [of ep h nm w]
      by (auto simp: check_endpoint_def Let_def)
  next
    case 5
    then obtain h where "ep_host ep = Some h"
      using assms by (auto simp: has_required_fields_def Let_def)
    then show ?thesis using 5 nm check_smtp_total [of ep h nm w]
      by (auto simp: check_endpoint_def Let_def)
  next
    case 6
    then show ?thesis using nm by (simp add: check_endpoint_def Let_def getitem_def)
  qed
qed

lemma run_checks_loop_complete:
  "\<forall>ep \<in> set eps. has_required_fields ep \<Longrightarrow>
   \<exists>rs chk'. run_checks_loop W eps chk = (None, chk') \<and> results chk' = results chk @ rs
     \<and> length rs = length eps
     \<and> (\<forall>k < length eps. \<exists>p. check_endpoint (W k) (eps ! k) = Inr p
            \<and> rs ! k = set_critical p (dict_get (ep_critical (eps ! k)) False))"
proof (induction eps arbitrary: W chk)
  case Nil
  then show ?case by simp
next
  case (Cons ep eps)
  from Cons.prems have req: "has_required_fields ep" and rest: "\<forall>e \<in> set eps. has_required_fields e"
    by simp_all
  obtain p where p: "check_endpoint (W 0) ep = Inr p"
    using check_endpoint_total [OF req] by blast
  define res where "res = set_critical p (dict_get (ep_critical ep) False)"
  define chk1 where "chk1 = chk\<lparr>results := results chk @ [res]\<rparr>"
  define chk2 where "chk2 =
     (if status res = Healthy then chk1\<lparr>successes := successes chk1 + 1\<rparr>
      else if status res = Warning then chk1\<lparr>warnings := warnings chk1 + 1\<rparr>
      else if critical res then chk1\<lparr>critical_failures := critical_failures chk1 + 1\<rparr>
      else chk1)"
  have step: "run_checks_loop W (ep # eps) chk = run_checks_loop (\<lambda>k. W (Suc k)) eps chk2"
    by (simp add: p res_def chk1_def chk2_def Let_def)
  have r2: "results chk2 = results chk @ [res]"
    by (simp add: chk2_def chk1_def)
  from Cons.IH [OF rest, of "\<lambda>k. W (Suc k)" chk2]
  obtain rs chk' where loop: "run_checks_loop (\<lambda>k. W (Suc k)) eps chk2 = (None, chk')"
    and rs: "results chk' = results chk2 @ rs" and len: "length rs = length eps"
    and each: "\<forall>k < length eps. \<exists>q. check_endpoint (W (Suc k)) (eps ! k) = Inr q
            \<and> rs ! k = set_critical q (dict_get (ep_critical (eps ! k)) False)"
    by blast
  have all: "\<forall>k < length (ep # eps). \<exists>q. check_endpoint (W k) ((ep # eps) ! k) = Inr q
            \<and> (res # rs) ! k = set_critical q (dict_get (ep_critical ((ep # eps) ! k)) False)"
  proof (intro allI impI)
    fix k assume k: "k < length (ep # eps)"
    show "\<exists>q. check_endpoint (W k) ((ep # eps) ! k) = Inr q
            \<and> (res # rs) ! k = set_critical q (dict_get (ep_critical ((ep # eps) ! k)) False)"
    proof (cases k)
      case 0
      then show ?thesis using p by (simp add: res_def)
    next
      case (Suc j)
      then show ?thesis using each k by simp
    qed
  qed
  show ?case
    apply (rule exI [of _ "res # rs"])
    apply (rule exI [of _ chk'])
    using step loop rs r2 len all by simp
qed

lemma run_checks_loop_delta:
  "\<exists>e rs dc dw ds. 0 \<le> dc \<and> 0 \<le> dw \<and> 0 \<le> ds \<and>
     (\<forall>chk. run_checks_loop W eps chk =
        (e, chk\<lparr>results := results chk @ rs,
               critical_failures := critical_failures chk + dc,
               warnings := warnings chk + dw,
               successes := successes chk + ds\<rparr>))"
proof (induction eps arbitrary: W)
  case Nil
  show ?case
    apply (rule exI [of _ None], rule exI [of _ "[]"])
    apply (rule exI [of _ 0], rule exI [of _ 0], rule exI [of _ 0])
    by simp
next
  case (Cons ep eps)
  show ?case
  proof (cases "check_endpoint (W 0) ep")
    case (Inl err)
    show ?thesis
      apply (rule exI [of _ "Some err"], rule exI [of _ "[]"])
      apply (rule exI [of _ 0], rule exI [of _ 0], rule exI [of _ 0])
      using Inl by simp
  next
    case (Inr p)
    define res where "res = set_critical p (dict_get (ep_critical ep) False)"
    from Cons.IH [of "\<lambda>k. W (Suc k)"]
    obtain e rs dc dw ds where nn: "0 \<le> dc" "0 \<le> dw" "0 \<le> ds"
      and loop: "\<And>chk. run_checks_loop (\<lambda>k. W (Suc k)) eps chk =
        (e, chk\<lparr>results := results chk @ rs,
               critical_failures := critical_failures chk + dc,
               warnings := warnings chk + dw,
               successes := successes chk + ds\<rparr>)"
      by blast
    define c1 :: int where "c1 = (if status res \<noteq> Healthy \<and> status res \<noteq> Warning \<and> critical res then 1 else 0)"
    define w1 :: int where "w1 = (if status res \<noteq> Healthy \<and> status res = Warning then 1 else 0)"
    define s1 :: int where "s1 = (if status res = Healthy then 1 else 0)"
    show ?thesis
      apply (rule exI [of _ e], rule exI [of _ "res # rs"])
      apply (rule exI [of _ "c1 + dc"], rule exI [of _ "w1 + dw"], rule exI [of _ "s1 + ds"])
      using nn by (simp add: Inr loop res_def [symmetric] Let_def c1_def w1_def s1_def)
  qed
qed

text \<open>
  Claim C4, as the code has it. No handler stands around \<open>check_endpoint\<close> in
  \<open>run_checks\<close>: a descriptor without the URL its strategy reads ends the batch with a
  \<open>KeyError\<close>, here after the first of three descriptors.
\<close>

theorem batch_aborts_on_missing_url:
  "fst (run_checks (\<lambda>k. sample_world (Response 200 50) (ConnectEx 0 20) TimeoutExpired)
          [sample_endpoint ''tcp'', (sample_endpoint ''http'')\<lparr>ep_url := None\<rparr>,
           sample_endpoint ''ping'']
          HealthChecker) = Inl (KeyError ''url'')"
  by (simp add: run_checks_def check_endpoint_def check_http_def check_tcp_def sample_endpoint_def
      sample_world_def dict_get_def getitem_def set_critical_def HealthChecker_def Let_def
      RESPONSE_TIME_WARN_def RESPONSE_TIME_CRITICAL_def)

text \<open>
  Claim C4, amended. When every descriptor carries the keys its strategy reads,
  \<open>run_checks\<close> completes the batch and returns one result per descriptor, in input
  order, whatever the network does. Nothing is caught by the dispatcher: each failure of
  the network operation is turned into a critical, unavailable result inside
  \<open>check_http\<close>, \<open>check_tcp\<close> or \<open>check_ping\<close>, and its detail is either a fixed
  text for the kind of failure (\<open>Connection timeout\<close>, \<open>DNS resolution failed\<close>,
  \<open>Ping timeout\<close>, \<open>Port N closed or filtered\<close>, \<open>Host unreachable\<close>) or a fixed
  prefix (\<open>Connection refused: \<close>, \<open>Error: \<close>) followed by the first 50 characters
  of the error text. \<open>check_ldap\<close> and \<open>check_smtp\<close> return what \<open>check_tcp\<close>
  returns for the descriptor they build, with the type overwritten.
\<close>

theorem run_checks_completes:
  "((\<forall>ep \<in> set eps. has_required_fields ep) \<longrightarrow>
      (\<exists>rs chk'. run_checks W eps chk = (Inr rs, chk') \<and> length rs = length eps
         \<and> (\<forall>k < length eps. \<exists>p. check_endpoint (W k) (eps ! k) = Inr p
                \<and> rs ! k = set_critical p (dict_get (ep_critical (eps ! k)) False))))
   \<and> (ep_url ep = Some u \<and> ep_name ep = Some nm \<longrightarrow>
        (\<exists>r. check_http w ep = Inr r \<and>
           (case requests_get w u (dict_get (ep_timeout ep) 5) of
              Response code t \<Rightarrow> available r
            | Timeout \<Rightarrow>
                \<not> available r \<and> status r = Critical \<and> details r = ''Connection timeout''
            | ConnectionError e \<Rightarrow>
                \<not> available r \<and> status r = Critical
                \<and> details r = ''Connection refused: '' @ take 50 e
            | HttpException e \<Rightarrow>
                \<not> available r \<and> status r = Critical
                \<and> details r = ''Error: '' @ take 50 e)))
   \<and> (ep_host ep = Some h \<and> ep_port ep = Some pt \<and> ep_name ep = Some nm \<longrightarrow>
        (\<exists>r. check_tcp w ep = Inr r \<and>
           (case connect_ex w h pt (dict_get (ep_timeout ep) 3) of
              ConnectEx res t \<Rightarrow>
                (if res = 0 then available r
                 else \<not> available r \<and> status r = Critical
                      \<and> details r = ''Port '' @ str_int pt @ '' closed or filtered'')
            | Gaierror \<Rightarrow>
                \<not> available r \<and> status r = Critical \<and> details r = ''DNS resolution failed''
            | TcpException e \<Rightarrow>
                \<not> available r \<and> status r = Critical
                \<and> details r = ''Error: '' @ take 50 e)))
   \<and> (ep_host ep = Some h \<and> ep_name ep = Some nm \<longrightarrow>
        (\<exists>r. check_ping w ep = Inr r \<and>
           (case subprocess_run w h (dict_get (ep_timeout ep) 2) of
              CompletedProcess returncode output \<Rightarrow>
                (if returncode = 0 then available r
                 else \<not> available r \<and> status r = Critical
                      \<and> details r = ''Host unreachable'')
            | TimeoutExpired \<Rightarrow>
                \<not> available r \<and> status r = Critical \<and> details r = ''Ping timeout''
            | PingException e \<Rightarrow>
                \<not> available r \<and> status r = Critical
                \<and> details r = ''Error: '' @ take 50 e)))
   \<and> (ep_host ep = Some h \<and> ep_name ep = Some nm \<longrightarrow>
        check_ldap w ep =
          map_sum id (\<lambda>p. p\<lparr>rtype := ''ldap''\<rparr>)
            (check_tcp w
               \<lparr>ep_name = Some nm, ep_type = None, ep_url = None, ep_host = Some h,
                ep_port = Some (dict_get (ep_port ep) 389), ep_critical = None,
                ep_timeout = Some (dict_get (ep_timeout ep) 3)\<rparr>)
        \<and> check_smtp w ep =
          map_sum id (\<lambda>p. p\<lparr>rtype := ''smtp''\<rparr>)
            (check_tcp w
               \<lparr>ep_name = Some nm, ep_type = None, ep_url = None, ep_host = Some h,
                ep_port = Some (dict_get (ep_port ep) 25), ep_critical = None,
                ep_timeout = Some (dict_get (ep_timeout ep) 5)\<rparr>))"
proof -
  have batch: "\<exists>rs chk'. run_checks W eps chk = (Inr rs, chk') \<and> length rs = length eps
         \<and> (\<forall>k < length eps. \<exists>p. check_endpoint (W k) (eps ! k) = Inr p
                \<and> rs ! k = set_critical p (dict_get (ep_critical (eps ! k)) False))"
    if req: "\<forall>ep \<in> set eps. has_required_fields ep"
  proof -
    from run_checks_loop_complete [OF req, of W "chk\<lparr>results := []\<rparr>"]
    obtain rs chk' where "run_checks_loop W eps (chk\<lparr>results := []\<rparr>) = (None, chk')"
      and "results chk' = rs" and "length rs = length eps"
      and "\<forall>k < length eps. \<exists>p. check_endpoint (W k) (eps ! k) = Inr p
            \<and> rs ! k = set_critical p (dict_get (ep_critical (eps ! k)) False)"
      by auto
    then show ?thesis by (simp add: run_checks_def)
  qed
  have http: "\<exists>r. check_http w ep = Inr r \<and>
           (case requests_get w u (dict_get (ep_timeout ep) 5) of
              Response code t \<Rightarrow> available r
            | Timeout \<Rightarrow>
                \<not> available r \<and> status r = Critical \<and> details r = ''Connection timeout''
            | ConnectionError e \<Rightarrow>
                \<not> available r \<and> status r = Critical
                \<and> details r = ''Connection refused: '' @ take 50 e
            | HttpException e \<Rightarrow>
                \<not> available r \<and> status r = Critical
                \<and> details r = ''Error: '' @ take 50 e)"
    if "ep_url ep = Some u" "ep_name ep = Some nm"
    using that by (simp add: check_http_def getitem_def Let_def split: http_outcome.split)
  have tcp: "\<exists>r. check_tcp w ep = Inr r \<and>
           (case connect_ex w h pt (dict_get (ep_timeout ep) 3) of
              ConnectEx res t \<Rightarrow>
                (if res = 0 then available r
                 else \<not> available r \<and> status r = Critical
                      \<and> details r = ''Port '' @ str_int pt @ '' closed or filtered'')
            | Gaierror \<Rightarrow>
                \<not> available r \<and> status r = Critical \<and> details r = ''DNS resolution failed''
            | TcpException e \<Rightarrow>
                \<not> available r \<and> status r = Critical
                \<and> details r = ''Error: '' @ take 50 e)"
    if "ep_host ep = Some h" "ep_port ep = Some pt" "ep_name ep = Some nm"
    using that by (simp add: check_tcp_def getitem_def Let_def split: tcp_outcome.split)
  have ping: "\<exists>r. check_ping w ep = Inr r \<and>
           (case subprocess_run w h (dict_get (ep_timeout ep) 2) of
              CompletedProcess returncode output \<Rightarrow>
                (if returncode = 0 then available r
                 else \<not> available r \<and> status r = Critical
                      \<and> details r = ''Host unreachable'')
            | TimeoutExpired \<Rightarrow>
                \<not> available r \<and> status r = Critical \<and> details r = ''Ping timeout''
            | PingException e \<Rightarrow>
                \<not> available r \<and> status r = Critical
                \<and> details r = ''Error: '' @ take 50 e)"
    if "ep_host ep = Some h" "ep_name ep = Some nm"
    using that by (simp add: check_ping_def getitem_def Let_def split: ping_outcome.split)
  have wrappers: "check_ldap w ep =
          map_sum id (\<lambda>p. p\<lparr>rtype := ''ldap''\<rparr>)
            (check_tcp w
               \<lparr>ep_name = Some nm, ep_type = None, ep_url = None, ep_host = Some h,
                ep_port = Some (dict_get (ep_port ep) 389), ep_critical = None,
                ep_timeout = Some (dict_get (ep_timeout ep) 3)\<rparr>)
        \<and> check_smtp w ep =
          map_sum id (\<lambda>p. p\<lparr>rtype := ''smtp''\<rparr>)
            (check_tcp w
               \<lparr>ep_name = Some nm, ep_type = None, ep_url = None, ep_host = Some h,
                ep_port = Some (dict_get (ep_port ep) 25), ep_critical = None,
                ep_timeout = Some (dict_get (ep_timeout ep) 5)\<rparr>)"
    if "ep_host ep = Some h" "ep_name ep = Some nm"
    using that by (simp add: check_ldap_def check_smtp_def getitem_def Let_def split: sum.split)
  show ?thesis using batch http tcp ping wrappers by blast
qed

theorem run_checks_completes_witness:
  "(\<exists>rs chk'. run_checks (\<lambda>k. sample_world (HttpException ''boom'') Gaierror TimeoutExpired)
        [sample_endpoint ''http'', sample_endpoint ''dns'', sample_endpoint ''ping'']
        HealthChecker = (Inr rs, chk') \<and> length rs = 3)
   \<and> (\<exists>r. check_http (sample_world (HttpException ''boom'') Gaierror TimeoutExpired)
          (sample_endpoint ''http'') = Inr r
        \<and> \<not> available r \<and> status r = Critical \<and> details r = ''Error: boom'')
   \<and> (\<exists>r. check_tcp (sample_world (HttpException ''boom'') Gaierror TimeoutExpired)
          (sample_endpoint ''tcp'') = Inr r
        \<and> \<not> available r \<and> status r = Critical \<and> details r = ''DNS resolution failed'')
   \<and> (\<exists>r. check_ping (sample_world (HttpException ''boom'') Gaierror TimeoutExpired)
          (sample_endpoint ''ping'') = Inr r
        \<and> \<not> available r \<and> status r = Critical \<and> details r = ''Ping timeout'')"
proof -
  define w0 where "w0 = sample_world (HttpException ''boom'') Gaierror TimeoutExpired"
  define eps0 where "eps0 = [sample_endpoint ''http'', sample_endpoint ''dns'',
        sample_endpoint ''ping'']"
  have req: "\<forall>ep \<in> set eps0. has_required_fields ep"
    by (simp add: eps0_def has_required_fields_def sample_endpoint_def dict_get_def)
  have a: "\<exists>rs chk'. run_checks (\<lambda>k. w0) eps0 HealthChecker = (Inr rs, chk') \<and> length rs = 3"
  proof -
    from run_checks_completes [where eps = eps0 and W = "\<lambda>k. w0" and chk = HealthChecker,
        THEN conjunct1] req
    obtain rs chk' where "run_checks (\<lambda>k. w0) eps0 HealthChecker = (Inr rs, chk')"
      and "length rs = length eps0"
      by blast
    then show ?thesis by (auto simp: eps0_def)
  qed
  have f: "ep_url (sample_endpoint ''http'') = Some ''https://svc''"
    "\<And>ty. ep_name (sample_endpoint ty) = Some ''svc''"
    "\<And>ty. ep_host (sample_endpoint ty) = Some ''svc.local''"
    "\<And>ty. ep_port (sample_endpoint ty) = Some 5432"
    "\<And>ty. ep_timeout (sample_endpoint ty) = None"
    by (simp_all add: sample_endpoint_def)
  have o: "\<And>url t. requests_get w0 url t = HttpException ''boom''"
    "\<And>host port t. connect_ex w0 host port t = Gaierror"
    "\<And>host t. subprocess_run w0 host t = TimeoutExpired"
    by (simp_all add: w0_def sample_world_def)
  have b: "\<exists>r. check_http w0 (sample_endpoint ''http'') = Inr r
        \<and> \<not> available r \<and> status r = Critical \<and> details r = ''Error: boom''"
    using run_checks_completes [where ep = "sample_endpoint ''http''" and w = w0
        and u = "''https://svc''" and nm = "''svc''"] f o
    by auto
  have c: "\<exists>r. check_tcp w0 (sample_endpoint ''tcp'') = Inr r
        \<and> \<not> available r \<and> status r = Critical \<and> details r = ''DNS resolution failed''"
    using run_checks_completes [where ep = "sample_endpoint ''tcp''" and w = w0
        and h = "''svc.local''" and pt = 5432 and nm = "''svc''"] f o
    by auto
  have d: "\<exists>r. check_ping w0 (sample_endpoint ''ping'') = Inr r
        \<and> \<not> available r \<and> status r = Critical \<and> details r = ''Ping timeout''"
    using run_checks_completes [where ep = "sample_endpoint ''ping''" and w = w0
        and h = "''svc.local''" and nm = "''svc''"] f o
    by auto
  show ?thesis using a b c d unfolding w0_def eps0_def by blast
qed

subsection \<open>Unknown check types\<close>

text \<open>
  Claim C5, as the code has it. The branch for an unknown check type reads
  \<open>endpoint['name']\<close>: for a descriptor of an unknown type that has no name it raises
  \<open>KeyError\<close>, and the batch that contains the descriptor ends with that error.
\<close>

theorem unknown_type_without_name_raises:
  "check_endpoint (sample_world Timeout Gaierror TimeoutExpired)
     ((sample_endpoint ''dns'')\<lparr>ep_name := None\<rparr>) = Inl (KeyError ''name'')
   \<and> fst (run_checks (\<lambda>k. sample_world Timeout Gaierror TimeoutExpired)
          [(sample_endpoint ''dns'')\<lparr>ep_name := None\<rparr>, sample_endpoint ''dns'']
          HealthChecker) = Inl (KeyError ''name'')"
  by (simp add: run_checks_def check_endpoint_def sample_endpoint_def dict_get_def getitem_def
      HealthChecker_def)

text \<open>
  Claim C5, amended. For every descriptor that has a name and whose check type is none
  of http, https, tcp, ping, ldap and smtp, the probe result has the state unknown, is
  unavailable, has the detail \<open>Unknown check type\<close> and echoes the check type; no
  error is raised, and the loop of \<open>run_checks\<close> appends the result and goes on with
  the rest of the batch.
\<close>

theorem unknown_check_type:
  "ep_type ep = Some t \<and> t \<notin> {''http'', ''https'', ''tcp'', ''ping'', ''ldap'', ''smtp''}
     \<and> ep_name ep = Some nm
   \<longrightarrow>
     check_endpoint w ep = Inr
       \<lparr>name = nm, rtype = t, status = Unknown, available = False,
        response_time_ms = None, http_code = None,
        details = ''Unknown check type'', timestamp = now w\<rparr>
     \<and> (\<exists>chk'. run_checks_loop W (ep # rest) chk = run_checks_loop (\<lambda>k. W (Suc k)) rest chk'
          \<and> results chk' = results chk @
               [\<lparr>name = nm, rtype = t, status = Unknown, available = False,
                 response_time_ms = None, http_code = None,
                 details = ''Unknown check type'', timestamp = now (W 0),
                 critical = dict_get (ep_critical ep) False\<rparr>])"
  by (auto simp: check_endpoint_def dict_get_def getitem_def set_critical_def Let_def)

theorem unknown_check_type_witness:
  "check_endpoint (sample_world Timeout Gaierror TimeoutExpired) (sample_endpoint ''dns'') = Inr
       \<lparr>name = ''svc'', rtype = ''dns'', status = Unknown, available = False,
        response_time_ms = None, http_code = None,
        details = ''Unknown check type'', timestamp = ''2026-01-31T09:00:00''\<rparr>"
  using unknown_check_type [of "sample_endpoint ''dns''" "''dns''" "''svc''"
      "sample_world Timeout Gaierror TimeoutExpired"]
  by (simp add: sample_endpoint_def sample_world_def)

subsection \<open>The HTTP strategy\<close>

text \<open>
  Claim C6, as the code has it. Every result dictionary of \<open>check_http\<close>, also the
  ones built in the exception handlers, reads \<open>endpoint['name']\<close>: for a descriptor
  with a URL and no name, a timeout of the request (or a response) ends in a
  \<open>KeyError\<close> that reaches the caller.
\<close>

theorem check_http_without_name_raises:
  "check_http (sample_world Timeout Gaierror TimeoutExpired)
     ((sample_endpoint ''http'')\<lparr>ep_name := None\<rparr>) = Inl (KeyError ''name'')
   \<and> check_http (sample_world (Response 503 20) Gaierror TimeoutExpired)
     ((sample_endpoint ''http'')\<lparr>ep_name := None\<rparr>) = Inl (KeyError ''name'')"
  by (simp add: check_http_def sample_endpoint_def sample_world_def dict_get_def getitem_def)

text \<open>
  Claim C6, amended. For every HTTP probe of a descriptor that has a name and a URL,
  \<open>check_http\<close> returns a result and raises nothing: a response with a status of 500
  or more is available and critical, one from 400 to 499 is available and a warning, one
  below 400 is available and graded by its latency; a timeout, a connection error and
  any other exception of the request are unavailable and critical, with the detail
  \<open>Connection timeout\<close>, or a fixed prefix followed by the first 50 characters of the
  error text.
\<close>

theorem check_http_outcomes:
  "ep_url ep = Some u \<and> ep_name ep = Some nm \<longrightarrow>
     (\<exists>r. check_http w ep = Inr r \<and>
        (case requests_get w u (dict_get (ep_timeout ep) 5) of
           Response code t \<Rightarrow>
             available r \<and>
             status r = (if 500 \<le> code then Critical else if 400 \<le> code then Warning
                         else grade t)
         | Timeout \<Rightarrow>
             \<not> available r \<and> status r = Critical \<and> details r = ''Connection timeout''
         | ConnectionError e \<Rightarrow>
             \<not> available r \<and> status r = Critical
             \<and> details r = ''Connection refused: '' @ take 50 e \<and> length (details r) \<le> 70
         | HttpException e \<Rightarrow>
             \<not> available r \<and> status r = Critical
             \<and> details r = ''Error: '' @ take 50 e \<and> length (details r) \<le> 57))"
  by (simp add: check_http_def getitem_def Let_def grade_def RESPONSE_TIME_WARN_def
      RESPONSE_TIME_CRITICAL_def split: http_outcome.split)

theorem check_http_outcomes_witness:
  "(\<exists>r. check_http (sample_world (Response 503 20) Gaierror TimeoutExpired)
          (sample_endpoint ''http'') = Inr r \<and> available r \<and> status r = Critical)
   \<and> (\<exists>r. check_http (sample_world (Response 404 20) Gaierror TimeoutExpired)
          (sample_endpoint ''http'') = Inr r \<and> available r \<and> status r = Warning)
   \<and> (\<exists>r. check_http (sample_world (ConnectionError ''refused'') Gaierror TimeoutExpired)
          (sample_endpoint ''http'') = Inr r \<and> \<not> available r \<and> status r = Critical
          \<and> details r = ''Connection refused: refused'')"
  using check_http_outcomes [of "sample_endpoint ''http''" "''https://svc''" "''svc''"
      "sample_world (Response 503 20) Gaierror TimeoutExpired"]
    check_http_outcomes [of "sample_endpoint ''http''" "''https://svc''" "''svc''"
      "sample_world (Response 404 20) Gaierror TimeoutExpired"]
    check_http_outcomes [of "sample_endpoint ''http''" "''https://svc''" "''svc''"
      "sample_world (ConnectionError ''refused'') Gaierror TimeoutExpired"]
  by (auto simp: sample_endpoint_def sample_world_def dict_get_def)

subsection \<open>Timeouts\<close>

text \<open>
  Claim C7, as the code has it. Each strategy reads \<open>endpoint.get('timeout', d)\<close>
  and tests nothing: a timeout of zero or below is passed on as it is. In a world that
  answers only to the default timeout, a descriptor with the timeout 0 (or -1) is probed
  with that value, and the probe differs from the one made with the default.
\<close>

theorem nonpositive_timeout_is_used:
  "check_http timeout_world ((sample_endpoint ''http'')\<lparr>ep_timeout := Some 0\<rparr>)
     \<noteq> check_http timeout_world ((sample_endpoint ''http'')\<lparr>ep_timeout := Some 5\<rparr>)
   \<and> (\<exists>r. check_http timeout_world ((sample_endpoint ''http'')\<lparr>ep_timeout := Some 0\<rparr>) = Inr r
        \<and> details r = ''Connection timeout'' \<and> response_time_ms r = Some (Finite 0))
   \<and> check_tcp timeout_world ((sample_endpoint ''tcp'')\<lparr>ep_timeout := Some (- 1)\<rparr>)
     \<noteq> check_tcp timeout_world ((sample_endpoint ''tcp'')\<lparr>ep_timeout := Some 3\<rparr>)
   \<and> check_ping timeout_world ((sample_endpoint ''ping'')\<lparr>ep_timeout := Some (- 1)\<rparr>)
     \<noteq> check_ping timeout_world ((sample_endpoint ''ping'')\<lparr>ep_timeout := Some 2\<rparr>)"
  by (simp add: check_http_def check_tcp_def check_ping_def timeout_world_def
      sample_endpoint_def dict_get_def getitem_def Let_def RESPONSE_TIME_WARN_def
      RESPONSE_TIME_CRITICAL_def)

text \<open>
  Claim C7, amended. A descriptor without a timeout is probed with the default of the
  strategy (5 for http, 3 for tcp, 2 for ping). A descriptor with a timeout \<open>t\<close> is
  probed with \<open>t\<close>, whatever its sign: the result depends on the world only through
  what it answers for the timeout \<open>t\<close>.
\<close>

theorem timeout_selection:
  "(ep_timeout ep = None \<longrightarrow>
      check_http w ep = check_http w (ep\<lparr>ep_timeout := Some 5\<rparr>)
      \<and> check_tcp w ep = check_tcp w (ep\<lparr>ep_timeout := Some 3\<rparr>)
      \<and> check_ping w ep = check_ping w (ep\<lparr>ep_timeout := Some 2\<rparr>))
   \<and> (ep_timeout ep = Some t
        \<and> (\<forall>url. requests_get w url t = requests_get w' url t)
        \<and> (\<forall>host port. connect_ex w host port t = connect_ex w' host port t)
        \<and> (\<forall>host. subprocess_run w host t = subprocess_run w' host t)
        \<and> float_of w = float_of w' \<and> now w = now w'
      \<longrightarrow>
      check_http w ep = check_http w' ep
      \<and> check_tcp w ep = check_tcp w' ep
      \<and> check_ping w ep = check_ping w' ep)"
proof -
  have absent: "check_http w ep = check_http w (ep\<lparr>ep_timeout := Some 5\<rparr>)
      \<and> check_tcp w ep = check_tcp w (ep\<lparr>ep_timeout := Some 3\<rparr>)
      \<and> check_ping w ep = check_ping w (ep\<lparr>ep_timeout := Some 2\<rparr>)"
    if "ep_timeout ep = None"
    using that by (simp add: check_http_def check_tcp_def check_ping_def dict_get_def Let_def
        cong: http_outcome.case_cong tcp_outcome.case_cong ping_outcome.case_cong if_cong)
  have given: "check_http w ep = check_http w' ep
      \<and> check_tcp w ep = check_tcp w' ep
      \<and> check_ping w ep = check_ping w' ep"
    if t: "ep_timeout ep = Some t"
      and h: "\<forall>url. requests_get w url t = requests_get w' url t"
      and c: "\<forall>host port. connect_ex w host port t = connect_ex w' host port t"
      and p: "\<forall>host. subprocess_run w host t = subprocess_run w' host t"
      and f: "float_of w = float_of w'" and n: "now w = now w'"
  proof -
    have "check_http w ep = check_http w' ep"
      using t h n by (simp add: check_http_def dict_get_def Let_def
          cong: http_outcome.case_cong tcp_outcome.case_cong ping_outcome.case_cong if_cong)
    moreover have "check_tcp w ep = check_tcp w' ep"
      using t c n by (simp add: check_tcp_def dict_get_def Let_def
          cong: http_outcome.case_cong tcp_outcome.case_cong ping_outcome.case_cong if_cong)
    moreover have "ping_avg_ms w = ping_avg_ms w'"
    proof (rule ext)
      fix out
      show "ping_avg_ms w out = ping_avg_ms w' out"
        unfolding ping_avg_ms_def f by (rule refl)
    qed
    then have "check_ping w ep = check_ping w' ep"
      using t p n by (simp add: check_ping_def dict_get_def Let_def
          cong: http_outcome.case_cong tcp_outcome.case_cong ping_outcome.case_cong if_cong)
    ultimately show ?thesis by simp
  qed
  show ?thesis using absent given by blast
qed

theorem timeout_selection_witness:
  "check_http timeout_world (sample_endpoint ''http'')
     = check_http timeout_world ((sample_endpoint ''http'')\<lparr>ep_timeout := Some 5\<rparr>)
   \<and> check_http timeout_world ((sample_endpoint ''http'')\<lparr>ep_timeout := Some 0\<rparr>)
     = check_http (timeout_world\<lparr>requests_get := (\<lambda>url timeout. Timeout)\<rparr>)
         ((sample_endpoint ''http'')\<lparr>ep_timeout := Some 0\<rparr>)"
proof -
  have none: "ep_timeout (sample_endpoint ''http'') = None"
    by (simp add: sample_endpoint_def)
  have a: "check_http timeout_world (sample_endpoint ''http'')
     = check_http timeout_world ((sample_endpoint ''http'')\<lparr>ep_timeout := Some 5\<rparr>)"
    using timeout_selection [where ep = "sample_endpoint ''http''" and w = timeout_world] none
    by blast
  define ep0 where "ep0 = (sample_endpoint ''http'')\<lparr>ep_timeout := Some 0\<rparr>"
  define w' where "w' = timeout_world\<lparr>requests_get := (\<lambda>url timeout. Timeout)\<rparr>"
  have h1: "ep_timeout ep0 = Some 0"
    by (simp add: ep0_def sample_endpoint_def)
  have h2: "\<forall>url. requests_get timeout_world url 0 = requests_get w' url 0"
    "\<forall>host port. connect_ex timeout_world host port 0 = connect_ex w' host port 0"
    "\<forall>host. subprocess_run timeout_world host 0 = subprocess_run w' host 0"
    "float_of timeout_world = float_of w'" "now timeout_world = now w'"
    by (simp_all add: w'_def timeout_world_def)
  note sel = timeout_selection [where ep = ep0 and w = timeout_world and w' = w'
      and t = 0]
  have b: "check_http timeout_world ep0 = check_http w' ep0"
    using sel h1 h2 by blast
  show ?thesis using a b unfolding ep0_def w'_def by blast
qed

subsection \<open>The ping strategy\<close>

lemma ping_avg_ms_unparsable: "avg_unparsable w out \<Longrightarrow> ping_avg_ms w out = Finite 0"
  by (auto simp: avg_unparsable_def ping_avg_ms_def Let_def split: list.splits)

lemma fmt_2f_zero: "fmt_2f (Finite 0) = ''0.00''"
  by (simp add: fmt_2f_def round_half_even_def str_nat.simps [of 0] digit_def)

lemma round2_zero: "round2 0 = 0"
  by (simp add: round2_def round_half_even_def)

text \<open>
  Claim C8. When ping returns 0 and no average can be read from its output (no \<open>avg\<close>
  in it, too few parts in the line, or a part that \<open>float\<close> rejects), the average is
  0 and the probe of a descriptor with a host and a name is available and healthy, with a
  response time of 0: reading the output never raises.
\<close>

theorem ping_unparsed_average:
  "ep_host ep = Some h \<and> ep_name ep = Some nm
     \<and> subprocess_run w h (dict_get (ep_timeout ep) 2) = CompletedProcess 0 out
     \<and> avg_unparsable w out
   \<longrightarrow> ping_avg_ms w out = Finite 0
     \<and> check_ping w ep = Inr
         \<lparr>name = nm, rtype = ''ping'', status = Healthy, available = True,
          response_time_ms = Some (Finite 0), http_code = None,
          details = ''Avg RTT: 0.00ms'', timestamp = now w\<rparr>"
  by (simp add: check_ping_def getitem_def Let_def ping_avg_ms_unparsable fmt_2f_zero
      round2_zero RESPONSE_TIME_WARN_def RESPONSE_TIME_CRITICAL_def)

theorem ping_unparsed_average_witness:
  "check_ping (sample_world Timeout Gaierror
       (CompletedProcess 0 ''3 packets transmitted, 3 received''))
     (sample_endpoint ''ping'') = Inr
         \<lparr>name = ''svc'', rtype = ''ping'', status = Healthy, available = True,
          response_time_ms = Some (Finite 0), http_code = None,
          details = ''Avg RTT: 0.00ms'', timestamp = ''2026-01-31T09:00:00''\<rparr>
   \<and> check_ping (sample_world Timeout Gaierror
       (CompletedProcess 0 ''rtt min/avg/max/mdev = 0.1/fast/0.7/0.1 ms''))
     (sample_endpoint ''ping'') = Inr
         \<lparr>name = ''svc'', rtype = ''ping'', status = Healthy, available = True,
          response_time_ms = Some (Finite 0), http_code = None,
          details = ''Avg RTT: 0.00ms'', timestamp = ''2026-01-31T09:00:00''\<rparr>
   \<and> check_ping (sample_world Timeout Gaierror (CompletedProcess 0 ''avg 12 ms''))
     (sample_endpoint ''ping'') = Inr
         \<lparr>name = ''svc'', rtype = ''ping'', status = Healthy, available = True,
          response_time_ms = Some (Finite 0), http_code = None,
          details = ''Avg RTT: 0.00ms'', timestamp = ''2026-01-31T09:00:00''\<rparr>"
  using ping_unparsed_average [of "sample_endpoint ''ping''" "''svc.local''" "''svc''"
      "sample_world Timeout Gaierror (CompletedProcess 0 ''3 packets transmitted, 3 received'')"
      "''3 packets transmitted, 3 received''"]
    ping_unparsed_average [of "sample_endpoint ''ping''" "''svc.local''" "''svc''"
      "sample_world Timeout Gaierror
         (CompletedProcess 0 ''rtt min/avg/max/mdev = 0.1/fast/0.7/0.1 ms'')"
      "''rtt min/avg/max/mdev = 0.1/fast/0.7/0.1 ms''"]
    ping_unparsed_average [of "sample_endpoint ''ping''" "''svc.local''" "''svc''"
      "sample_world Timeout Gaierror (CompletedProcess 0 ''avg 12 ms'')" "''avg 12 ms''"]
  by (simp add: sample_endpoint_def sample_world_def dict_get_def avg_unparsable_def)

subsection \<open>Running the checks twice\<close>

text \<open>
  What a run adds to the counters does not depend on the object it starts from, and
  neither does what it returns. \<open>run_checks\<close> never resets the counters, so a second
  run on the same object adds the same amounts again.
\<close>

lemma run_checks_delta:
  "\<exists>out dc dw ds. 0 \<le> dc \<and> 0 \<le> dw \<and> 0 \<le> ds \<and>
     (\<forall>chk. \<exists>chk'. run_checks W eps chk = (out, chk')
        \<and> critical_failures chk' = critical_failures chk + dc
        \<and> warnings chk' = warnings chk + dw
        \<and> successes chk' = successes chk + ds)"
proof -
  from run_checks_loop_delta [of W eps]
  obtain e rs dc dw ds where nn: "0 \<le> dc" "0 \<le> dw" "0 \<le> ds"
    and loop: "\<And>chk. run_checks_loop W eps chk =
        (e, chk\<lparr>results := results chk @ rs,
               critical_failures := critical_failures chk + dc,
               warnings := warnings chk + dw,
               successes := successes chk + ds\<rparr>)"
    by blast
  show ?thesis
    apply (rule exI [of _ "case e of Some err \<Rightarrow> Inl err | None \<Rightarrow> Inr rs"])
    apply (rule exI [of _ dc], rule exI [of _ dw], rule exI [of _ ds])
    using nn by (simp add: run_checks_def loop split: option.split)
qed

lemma counters_accumulate:
  "successes (snd (run_checks (\<lambda>k. sample_world (Response 200 20) Gaierror TimeoutExpired)
          [sample_endpoint ''http'']
          (snd (run_checks (\<lambda>k. sample_world (Response 200 20) Gaierror TimeoutExpired)
                  [sample_endpoint ''http''] HealthChecker)))) = 2"
  by (simp add: run_checks_def check_endpoint_def check_http_def sample_endpoint_def
      sample_world_def dict_get_def getitem_def set_critical_def HealthChecker_def Let_def
      RESPONSE_TIME_WARN_def RESPONSE_TIME_CRITICAL_def)

text \<open>
  When the worlds of the two runs are the same, the second run on the checker that the
  first run left behind returns what the first run returned, and the exit code read from
  the counters is the same after both: the counters have grown, but the exit code only
  asks whether they are positive.
\<close>

lemma second_run_same_outputs:
  "0 \<le> critical_failures chk \<and> 0 \<le> warnings chk \<longrightarrow>
     (let run1 = run_checks W eps chk;
          run2 = run_checks W eps (snd run1)
      in fst run2 = fst run1
         \<and> map_sum id (map status) (fst run2) = map_sum id (map status) (fst run1)
         \<and> map_sum id (\<lambda>rs. overall_status (generate_json_output rs)) (fst run2)
             = map_sum id (\<lambda>rs. overall_status (generate_json_output rs)) (fst run1)
         \<and> exit_code (snd run2) = exit_code (snd run1))"
proof
  assume nonneg: "0 \<le> critical_failures chk \<and> 0 \<le> warnings chk"
  from run_checks_delta [of W eps]
  obtain out dc dw ds where nn: "0 \<le> dc" "0 \<le> dw" "0 \<le> ds"
    and run: "\<And>c. \<exists>c'. run_checks W eps c = (out, c')
        \<and> critical_failures c' = critical_failures c + dc
        \<and> warnings c' = warnings c + dw
        \<and> successes c' = successes c + ds"
    by blast
  from run [of chk] obtain c1 where r1: "run_checks W eps chk = (out, c1)"
    and cf1: "critical_failures c1 = critical_failures chk + dc"
    and w1: "warnings c1 = warnings chk + dw"
    by blast
  from run [of c1] obtain c2 where r2: "run_checks W eps c1 = (out, c2)"
    and cf2: "critical_failures c2 = critical_failures c1 + dc"
    and w2: "warnings c2 = warnings c1 + dw"
    by blast
  have "exit_code c2 = exit_code c1"
    using nonneg nn cf1 w1 cf2 w2 by (auto simp: exit_code_def)
  then show "let run1 = run_checks W eps chk;
          run2 = run_checks W eps (snd run1)
      in fst run2 = fst run1
         \<and> map_sum id (map status) (fst run2) = map_sum id (map status) (fst run1)
         \<and> map_sum id (\<lambda>rs. overall_status (generate_json_output rs)) (fst run2)
             = map_sum id (\<lambda>rs. overall_status (generate_json_output rs)) (fst run1)
         \<and> exit_code (snd run2) = exit_code (snd run1)"
    by (simp add: r1 r2 Let_def)
qed


end
